theory Spec2Isabelle
  imports Main "HOL-Library.Word"
begin

section \<open>Wallet authentication server (backend/server.js)\<close>

text \<open>
  The three handlers of \<^verbatim>\<open>backend/server.js\<close> are embedded as functions from a request,
  the outcomes of the calls the handler awaits, and the store, to a response and the new
  store. Library calls (ethers, jsonwebtoken, Date) are parameters of the model, collected
  in the record \<open>env\<close>; a call that throws returns \<open>None\<close>.

  The store holds the tables the handlers touch, as the migration declares them: the
  unique columns (\<open>nonce\<close>, \<open>wallet_address\<close>, the primary key and the email of
  \<open>profiles\<close>), the trigger \<open>ensure_single_primary_wallet\<close>, and the row-level policies
  that decide which rows a select returns to the server's client, which connects with
  the anon key: an \<open>auth_nonces\<close> row is returned while it is unexpired on the store's
  clock and unused, a \<open>wallet_addresses\<close> row only to a client signed in as its owner.
  The store's clock and the identity of the client are outcomes of the request. Every
  reason for a store call to return an error (network, a write refused by a policy, a
  foreign key) is an outcome flag of the request.

  Timestamps are milliseconds since the epoch: \<open>expires_at\<close> is written as an ISO string
  and read back with \<^verbatim>\<open>new Date\<close>, which returns the same millisecond. Strings are
  byte strings; the request fields are optional strings (a missing field is \<open>None\<close>).
\<close>

subsection \<open>Library calls\<close>

record jwt_claims =
  c_userId :: string
  c_walletAddress :: string
  c_authMethod :: string
  c_iat :: int
  c_exp :: int

record env =
  getAddress :: "string \<Rightarrow> string option"
  verifyMessage :: "string \<Rightarrow> string \<Rightarrow> string option"
  jwt_sign :: "jwt_claims \<Rightarrow> string \<Rightarrow> string"
  jwt_verify :: "string \<Rightarrow> string \<Rightarrow> int \<Rightarrow> jwt_claims option"
  toISOString :: "int \<Rightarrow> string"
  JWT_SECRET :: string

text \<open>ethers v6: \<^verbatim>\<open>isAddress(v)\<close> is true exactly when \<^verbatim>\<open>getAddress(v)\<close> does not throw.\<close>

definition isAddress :: "env \<Rightarrow> string \<Rightarrow> bool" where
  "isAddress e a = (getAddress e a \<noteq> None)"

text \<open>\<^verbatim>\<open>String.prototype.toLowerCase\<close> on the ASCII range (addresses are ASCII).\<close>

definition lower_char :: "char \<Rightarrow> char" where
  "lower_char c =
     (case map_of (zip ''ABCDEFGHIJKLMNOPQRSTUVWXYZ'' ''abcdefghijklmnopqrstuvwxyz'') c of
        Some l \<Rightarrow> l
      | None \<Rightarrow> c)"

definition toLowerCase :: "string \<Rightarrow> string" where
  "toLowerCase s = map lower_char s"

text \<open>
  What the library guarantees of its addresses: signature recovery returns an address in
  checksum form, \<open>getAddress\<close> returns checksum forms and leaves them as they are, and a
  checksum form is determined by its lower-case spelling (the case of each letter is a
  function of the digits).
\<close>

definition checksum_contract :: "env \<Rightarrow> bool" where
  "checksum_contract e =
     ((\<forall>m s a. verifyMessage e m s = Some a \<longrightarrow> getAddress e a = Some a) \<and>
      (\<forall>a c. getAddress e a = Some c \<longrightarrow> getAddress e c = Some c) \<and>
      (\<forall>a b. getAddress e a = Some a \<longrightarrow> getAddress e b = Some b \<longrightarrow>
             toLowerCase a = toLowerCase b \<longrightarrow> a = b))"

text \<open>
  jsonwebtoken: \<^verbatim>\<open>jwt.sign(payload, secret, {expiresIn: '7d'})\<close> adds \<open>iat\<close>, the
  current time in seconds, and \<open>exp = iat + 7 days\<close> to the payload before signing.
\<close>

definition sign_7d :: "env \<Rightarrow> string \<Rightarrow> string \<Rightarrow> string \<Rightarrow> int \<Rightarrow> string" where
  "sign_7d e userId walletAddress authMethod now_ms =
     jwt_sign e
       \<lparr>c_userId = userId, c_walletAddress = walletAddress, c_authMethod = authMethod,
        c_iat = now_ms div 1000, c_exp = now_ms div 1000 + 7 * 24 * 60 * 60\<rparr>
       (JWT_SECRET e)"

subsection \<open>Responses\<close>

datatype response =
    ErrorResponse nat string
  | NonceIssued string string string
  | Verified string string string bool string
  | Linked string string

subsection \<open>The store\<close>

record nonce_row =
  n_id :: nat
  n_wallet_address :: string
  n_nonce :: string
  n_expires_at :: int
  n_used :: bool

record wallet_row =
  w_id :: nat
  w_user_id :: string
  w_wallet_address :: string
  w_is_primary :: bool

record profile_row =
  p_id :: string
  p_email :: string
  p_first_name :: string
  p_last_name :: string
  p_profile_completion :: nat

record db =
  auth_nonces :: "nonce_row list"
  wallet_addresses :: "wallet_row list"
  profiles :: "profile_row list"

text \<open>Row ids are generated by the store; the model takes the next unused number.\<close>

definition fresh_id :: "nat list \<Rightarrow> nat" where
  "fresh_id ids = Suc (fold max ids 0)"

text \<open>
  \<^verbatim>\<open>.maybeSingle()\<close>: no row gives no data and no error, one row gives the row, several
  rows give an error. The result is \<open>(error, data)\<close>.
\<close>

fun maybeSingle :: "'a list \<Rightarrow> bool \<times> 'a option" where
  "maybeSingle [] = (False, None)"
| "maybeSingle [r] = (False, Some r)"
| "maybeSingle (r # r' # rs) = (True, None)"

text \<open>Insert into \<open>auth_nonces\<close>; \<open>None\<close> is an error (outcome flag or duplicate nonce).\<close>

definition insert_nonce :: "bool \<Rightarrow> string \<Rightarrow> string \<Rightarrow> int \<Rightarrow> db \<Rightarrow> db option" where
  "insert_nonce fails wallet nonce expires d =
     (if fails \<or> nonce \<in> set (map n_nonce (auth_nonces d)) then None
      else Some (d\<lparr>auth_nonces := auth_nonces d @
             [\<lparr>n_id = fresh_id (map n_id (auth_nonces d)), n_wallet_address = wallet,
               n_nonce = nonce, n_expires_at = expires, n_used = False\<rparr>]\<rparr>))"

text \<open>
  Insert into \<open>wallet_addresses\<close>. A row inserted as primary makes the trigger clear
  \<open>is_primary\<close> on the owner's other rows.
\<close>

definition insert_wallet :: "bool \<Rightarrow> string \<Rightarrow> string \<Rightarrow> bool \<Rightarrow> db \<Rightarrow> db option" where
  "insert_wallet fails user wallet primary d =
     (if fails \<or> wallet \<in> set (map w_wallet_address (wallet_addresses d)) then None
      else Some (d\<lparr>wallet_addresses :=
             map (\<lambda>r. if primary \<and> w_user_id r = user \<and> w_is_primary r
                       then r\<lparr>w_is_primary := False\<rparr> else r) (wallet_addresses d) @
             [\<lparr>w_id = fresh_id (map w_id (wallet_addresses d)), w_user_id = user,
               w_wallet_address = wallet, w_is_primary = primary\<rparr>]\<rparr>))"

definition insert_profile :: "bool \<Rightarrow> profile_row \<Rightarrow> db \<Rightarrow> db option" where
  "insert_profile fails p d =
     (if fails \<or> p_id p \<in> set (map p_id (profiles d))
          \<or> p_email p \<in> set (map p_email (profiles d)) then None
      else Some (d\<lparr>profiles := profiles d @ [p]\<rparr>))"

text \<open>
  \<^verbatim>\<open>.update({ used: true }).eq('id', id)\<close>. The handler does not read the result;
  whether the store applies the update or refuses it is the flag.
\<close>

definition update_used :: "bool \<Rightarrow> nat \<Rightarrow> db \<Rightarrow> db" where
  "update_used fails i d =
     (if fails then d
      else d\<lparr>auth_nonces :=
             map (\<lambda>r. if n_id r = i then r\<lparr>n_used := True\<rparr> else r) (auth_nonces d)\<rparr>)"

subsection \<open>Nonce generation and the challenge message\<close>

definition hex_digit :: "nat \<Rightarrow> char" where
  "hex_digit n = ''0123456789abcdef'' ! n"

definition hex_byte :: "8 word \<Rightarrow> string" where
  "hex_byte b = [hex_digit (unat b div 16), hex_digit (unat b mod 16)]"

definition toString_hex :: "8 word list \<Rightarrow> string" where
  "toString_hex bs = concat (map hex_byte bs)"

text \<open>\<^verbatim>\<open>crypto.randomBytes(32).toString('hex')\<close>; the 32 bytes drawn are the argument.\<close>

definition generateNonce :: "8 word list \<Rightarrow> string" where
  "generateNonce randomBytes = toString_hex randomBytes"

definition preamble :: string where
  "preamble = ''Sign this message to authenticate with DilSe Matchify.'' @ [CHR 10, CHR 10]"

definition challenge_message :: "string \<Rightarrow> string \<Rightarrow> string" where
  "challenge_message nonce timestamp =
     preamble @ ''Nonce: '' @ nonce @ [CHR 10] @ ''Timestamp: '' @ timestamp"

text \<open>
  \<^verbatim>\<open>message.match(/Nonce: ([a-f0-9]+)/)\<close>: the leftmost position where the literal is
  followed by at least one character of the class; the group is the longest such run.
\<close>

definition is_nonce_char :: "char \<Rightarrow> bool" where
  "is_nonce_char c = (c \<in> set ''abcdef0123456789'')"

definition match_here :: "string \<Rightarrow> string option" where
  "match_here s =
     (if take 7 s = ''Nonce: '' \<and> takeWhile is_nonce_char (drop 7 s) \<noteq> []
      then Some (takeWhile is_nonce_char (drop 7 s)) else None)"

fun nonce_match :: "string \<Rightarrow> string option" where
  "nonce_match [] = None"
| "nonce_match (c # cs) =
     (case match_here (c # cs) of Some g \<Rightarrow> Some g | None \<Rightarrow> nonce_match cs)"

subsection \<open>GET /api/auth/nonce/:walletAddress\<close>

text \<open>
  What the handler reads from outside the store: the random bytes, the clock at the
  computation of \<open>expiresAt\<close>, whether the insert returns an error, and the clock when
  the message is built.
\<close>

record nonce_outcomes =
  no_randomBytes :: "8 word list"
  no_now :: int
  no_insert_fails :: bool
  no_now_message :: int

definition nonce_handler :: "env \<Rightarrow> nonce_outcomes \<Rightarrow> string \<Rightarrow> db \<Rightarrow> response \<times> db" where
  "nonce_handler e oc walletAddress d =
     (if \<not> isAddress e walletAddress then (ErrorResponse 400 ''Invalid wallet address'', d)
      else case getAddress e walletAddress of
        None \<Rightarrow> (ErrorResponse 500 ''Internal server error'', d)
      | Some checksummedAddress \<Rightarrow>
          (let nonce = generateNonce (no_randomBytes oc);
               expiresAt = no_now oc + 5 * 60 * 1000
           in case insert_nonce (no_insert_fails oc) checksummedAddress nonce expiresAt d of
                None \<Rightarrow> (ErrorResponse 500 ''Failed to generate nonce'', d)
              | Some d' \<Rightarrow>
                  (NonceIssued nonce
                     (challenge_message nonce (toISOString e (no_now_message oc)))
                     (toISOString e expiresAt), d')))"

subsection \<open>POST /api/auth/verify\<close>

text \<open>
  What the handler reads from outside the store, in the order of the calls: whether the
  nonce lookup returns an error, and the store's clock when it runs; the handler's clock
  at the expiry comparison; whether the update is refused; whether the wallet lookup
  returns an error, and the identity of the client when it runs; the user id returned by
  the sign-up (\<open>None\<close> when it fails); whether each of the two inserts is refused; the
  clock when the token is signed.
\<close>

record verify_outcomes =
  vo_nonce_select_fails :: bool
  vo_db_now :: int
  vo_now :: int
  vo_update_fails :: bool
  vo_wallet_select_fails :: bool
  vo_client :: "string option"
  vo_signUp :: "string option"
  vo_profile_insert_fails :: bool
  vo_wallet_insert_fails :: bool
  vo_now_sign :: int

text \<open>
  Policy \<^verbatim>\<open>"Anyone can read unexpired nonces"\<close>:
  \<^verbatim>\<open>USING (expires_at > now() AND used = false)\<close>, with \<open>now()\<close> the store's clock.
\<close>

definition nonce_visible :: "int \<Rightarrow> nonce_row \<Rightarrow> bool" where
  "nonce_visible db_now r = (n_expires_at r > db_now \<and> n_used r = False)"

text \<open>
  Policy \<^verbatim>\<open>"Users can view their own wallet addresses"\<close>:
  \<^verbatim>\<open>TO authenticated USING (user_id = auth.uid())\<close>. The client is \<open>None\<close> when it is
  anonymous and \<open>Some u\<close> when it holds the session of user \<open>u\<close>.
\<close>

definition wallet_visible :: "string option \<Rightarrow> wallet_row \<Rightarrow> bool" where
  "wallet_visible client r = (client = Some (w_user_id r))"

text \<open>The select on \<open>auth_nonces\<close> (lines 107-113), as \<open>(nonceError, nonceData)\<close>.\<close>

definition select_nonce ::
  "bool \<Rightarrow> int \<Rightarrow> string \<Rightarrow> string \<Rightarrow> db \<Rightarrow> bool \<times> nonce_row option" where
  "select_nonce fails db_now nonce wallet d =
     (if fails then (True, None)
      else maybeSingle
             (filter (\<lambda>r. nonce_visible db_now r \<and> n_nonce r = nonce \<and>
                          n_wallet_address r = wallet \<and> n_used r = False)
                (auth_nonces d)))"

text \<open>The select on \<open>wallet_addresses\<close> by address; the handlers read only \<open>data\<close>.\<close>

definition select_wallet :: "bool \<Rightarrow> string option \<Rightarrow> string \<Rightarrow> db \<Rightarrow> wallet_row option" where
  "select_wallet fails client wallet d =
     (if fails then None
      else snd (maybeSingle
                  (filter (\<lambda>r. wallet_visible client r \<and> w_wallet_address r = wallet)
                     (wallet_addresses d))))"

text \<open>
  Lines 89-133: everything up to the signature comparison. The store is only read.
  \<open>Inl\<close> is an early response, \<open>Inr\<close> carries \<open>nonceData.id\<close> and the checksummed address
  to the rest of the handler.
\<close>

fun verify_pre ::
  "env \<Rightarrow> verify_outcomes \<Rightarrow> string option \<Rightarrow> string option \<Rightarrow> string option \<Rightarrow> db
     \<Rightarrow> response + (nat \<times> string)" where
  "verify_pre e oc (Some walletAddress) (Some signature) (Some message) d =
     (if walletAddress = [] \<or> signature = [] \<or> message = []
      then Inl (ErrorResponse 400 ''Missing required fields'')
      else if \<not> isAddress e walletAddress then Inl (ErrorResponse 400 ''Invalid wallet address'')
      else case getAddress e walletAddress of
        None \<Rightarrow> Inl (ErrorResponse 500 ''Internal server error'')
      | Some checksummedAddress \<Rightarrow>
         (case nonce_match message of
            None \<Rightarrow> Inl (ErrorResponse 400 ''Invalid message format'')
          | Some nonce \<Rightarrow>
             (case select_nonce (vo_nonce_select_fails oc) (vo_db_now oc) nonce
                     checksummedAddress d of
                (nonceError, None) \<Rightarrow> Inl (ErrorResponse 401 ''Invalid or expired nonce'')
              | (nonceError, Some nonceData) \<Rightarrow>
                  if nonceError then Inl (ErrorResponse 401 ''Invalid or expired nonce'')
                  else if n_expires_at nonceData < vo_now oc
                  then Inl (ErrorResponse 401 ''Nonce has expired'')
                  else (case verifyMessage e message signature of
                          None \<Rightarrow> Inl (ErrorResponse 401 ''Invalid signature'')
                        | Some recoveredAddress \<Rightarrow>
                            if toLowerCase recoveredAddress \<noteq> toLowerCase checksummedAddress
                            then Inl (ErrorResponse 401 ''Signature does not match wallet address'')
                            else Inr (n_id nonceData, checksummedAddress)))))"
| "verify_pre e oc _ _ _ d = Inl (ErrorResponse 400 ''Missing required fields'')"

text \<open>Lines 153-197: sign up a placeholder account; both inserts only log their error.\<close>

definition create_account :: "verify_outcomes \<Rightarrow> string \<Rightarrow> db \<Rightarrow> string option \<times> db" where
  "create_account oc checksummedAddress d =
     (let tempEmail = toLowerCase checksummedAddress @ ''@wallet.dilsematchify.com''
      in case vo_signUp oc of
           None \<Rightarrow> (None, d)
         | Some userId \<Rightarrow>
            (let d1 = (case insert_profile (vo_profile_insert_fails oc)
                              \<lparr>p_id = userId, p_email = tempEmail, p_first_name = ''User'',
                               p_last_name = take 8 checksummedAddress,
                               p_profile_completion = 10\<rparr> d of
                         None \<Rightarrow> d | Some d' \<Rightarrow> d');
                 d2 = (case insert_wallet (vo_wallet_insert_fails oc) userId
                              checksummedAddress True d1 of
                         None \<Rightarrow> d1 | Some d' \<Rightarrow> d')
             in (Some userId, d2)))"

text \<open>Lines 140-198: the owner of the address, or a new account; with \<open>isNewUser\<close>.\<close>

definition resolve_identity ::
  "verify_outcomes \<Rightarrow> string \<Rightarrow> db \<Rightarrow> (string \<times> bool) option \<times> db" where
  "resolve_identity oc checksummedAddress d =
     (let fresh = (case create_account oc checksummedAddress d of
                     (None, d') \<Rightarrow> (None, d')
                   | (Some userId, d') \<Rightarrow> (Some (userId, True), d'))
      in case select_wallet (vo_wallet_select_fails oc) (vo_client oc) checksummedAddress d of
           None \<Rightarrow> fresh
         | Some walletData \<Rightarrow>
             if w_user_id walletData \<noteq> [] then (Some (w_user_id walletData, False), d)
             else fresh)"

text \<open>Lines 135-217: mark the nonce used, resolve the identity, sign, respond.\<close>

definition verify_post ::
  "env \<Rightarrow> verify_outcomes \<Rightarrow> nat \<times> string \<Rightarrow> db \<Rightarrow> response \<times> db" where
  "verify_post e oc c d =
     (case c of (nonceId, checksummedAddress) \<Rightarrow>
       (case resolve_identity oc checksummedAddress
               (update_used (vo_update_fails oc) nonceId d) of
          (None, d') \<Rightarrow> (ErrorResponse 500 ''Failed to create user account'', d')
        | (Some (userId, isNewUser), d') \<Rightarrow>
            (Verified (sign_7d e userId checksummedAddress ''wallet'' (vo_now_sign oc))
               userId checksummedAddress isNewUser
               (if isNewUser then ''Account created successfully'' else ''Login successful''),
             d')))"

definition verify ::
  "env \<Rightarrow> verify_outcomes \<Rightarrow> string option \<Rightarrow> string option \<Rightarrow> string option \<Rightarrow> db
     \<Rightarrow> response \<times> db" where
  "verify e oc walletAddress signature message d =
     (case verify_pre e oc walletAddress signature message d of
        Inl r \<Rightarrow> (r, d)
      | Inr c \<Rightarrow> verify_post e oc c d)"

subsection \<open>POST /api/auth/link-wallet\<close>

text \<open>
  The clock read by \<^verbatim>\<open>jwt.verify\<close>, the identity of the client, whether each of the two
  lookups returns an error, and whether the insert is refused.
\<close>

record link_outcomes =
  lo_now :: int
  lo_client :: "string option"
  lo_existing_select_fails :: bool
  lo_user_select_fails :: bool
  lo_insert_fails :: bool

fun link_wallet ::
  "env \<Rightarrow> link_outcomes \<Rightarrow> string option \<Rightarrow> string option \<Rightarrow> string option \<Rightarrow> db
     \<Rightarrow> response \<times> db" where
  "link_wallet e oc (Some walletAddress) (Some userId) (Some authToken) d =
     (if walletAddress = [] \<or> userId = [] \<or> authToken = []
      then (ErrorResponse 400 ''Missing required fields'', d)
      else case jwt_verify e authToken (JWT_SECRET e) (lo_now oc) of
        None \<Rightarrow> (ErrorResponse 401 ''Invalid or expired token'', d)
      | Some decoded \<Rightarrow>
          if c_userId decoded \<noteq> userId then (ErrorResponse 403 ''Unauthorized'', d)
          else (case getAddress e walletAddress of
                  None \<Rightarrow> (ErrorResponse 500 ''Internal server error'', d)
                | Some checksummedAddress \<Rightarrow>
                   (case select_wallet (lo_existing_select_fails oc) (lo_client oc)
                           checksummedAddress d of
                      Some existingWallet \<Rightarrow>
                        (ErrorResponse 400 ''Wallet already linked to another account'', d)
                    | None \<Rightarrow>
                       (let userWallets =
                              (if lo_user_select_fails oc then None
                               else Some (filter (\<lambda>r. wallet_visible (lo_client oc) r \<and>
                                                       w_user_id r = userId)
                                            (wallet_addresses d)));
                            isPrimary = (case userWallets of
                                           None \<Rightarrow> True | Some ws \<Rightarrow> length ws = 0)
                        in case insert_wallet (lo_insert_fails oc) userId
                                  checksummedAddress isPrimary d of
                             None \<Rightarrow> (ErrorResponse 500 ''Failed to link wallet'', d)
                           | Some d' \<Rightarrow>
                               (Linked ''Wallet linked successfully'' checksummedAddress,
                                d')))))"
| "link_wallet e oc _ _ _ d = (ErrorResponse 400 ''Missing required fields'', d)"

subsection \<open>A concrete environment for worked examples\<close>

text \<open>
  The examples below run the handlers in a small environment: two wallets, each
  recognised in its checksummed and its lower-case spelling; a signature that names its
  signer and the message it signs; a token that names its subject; ISO strings for the
  instants of 1 January 1970.
\<close>

definition addr_A :: string where
  "addr_A = ''0xd8dA6BF26964aF9D7eEd9e03E53415D37aA96045''"

definition addr_A_lower :: string where
  "addr_A_lower = ''0xd8da6bf26964af9d7eed9e03e53415d37aa96045''"

definition addr_B :: string where
  "addr_B = ''0xf39Fd6e51aad88F6F4ce6aB8827279cffFb92266''"

definition addr_B_lower :: string where
  "addr_B_lower = ''0xf39fd6e51aad88f6f4ce6ab8827279cfffb92266''"

definition sign_A :: "string \<Rightarrow> string" where
  "sign_A m = ''signed-by-A:'' @ m"

definition sign_B :: "string \<Rightarrow> string" where
  "sign_B m = ''signed-by-B:'' @ m"

definition digit :: "int \<Rightarrow> char" where
  "digit n = ''0123456789'' ! nat (n mod 10)"

definition demo_iso :: "int \<Rightarrow> string" where
  "demo_iso t =
     ''1970-01-01T''
     @ [digit (t div 36000000), digit (t div 3600000)] @ '':''
     @ [digit (t div 60000 mod 60 div 10), digit (t div 60000 mod 60)] @ '':''
     @ [digit (t div 1000 mod 60 div 10), digit (t div 1000 mod 60)] @ ''.''
     @ [digit (t div 100), digit (t div 10), digit t] @ ''Z''"

definition demo_env :: env where
  "demo_env =
     \<lparr>getAddress = (\<lambda>a. if a = addr_A \<or> a = addr_A_lower then Some addr_A
                         else if a = addr_B \<or> a = addr_B_lower then Some addr_B else None),
      verifyMessage = (\<lambda>m s. if s = sign_A m then Some addr_A
                              else if s = sign_B m then Some addr_B else None),
      jwt_sign = (\<lambda>c k. ''jwt:'' @ c_userId c),
      jwt_verify = (\<lambda>t k now.
         if t = ''jwt:user-1'' \<and> now < 604800000
         then Some \<lparr>c_userId = ''user-1'', c_walletAddress = addr_A,
                    c_authMethod = ''wallet'', c_iat = 0, c_exp = 604800\<rparr>
         else None),
      toISOString = demo_iso,
      JWT_SECRET = ''your-super-secret-jwt-key-change-in-production''\<rparr>"

definition empty_db :: db where
  "empty_db = \<lparr>auth_nonces = [], wallet_addresses = [], profiles = []\<rparr>"

text \<open>A link request with an anonymous client, and one with the client signed in.\<close>

definition link_ok :: link_outcomes where
  "link_ok = \<lparr>lo_now = 1000, lo_client = None, lo_existing_select_fails = False,
              lo_user_select_fails = False, lo_insert_fails = False\<rparr>"

definition link_signed_in :: link_outcomes where
  "link_signed_in = link_ok\<lparr>lo_client := Some ''user-1''\<rparr>"

definition demo_bytes :: "8 word list" where
  "demo_bytes =
     [0x00, 0x11, 0x22, 0x33, 0x44, 0x55, 0x66, 0x77, 0x88, 0x99, 0xaa, 0xbb, 0xcc, 0xdd, 0xee, 0xff,
      0x00, 0x11, 0x22, 0x33, 0x44, 0x55, 0x66, 0x77, 0x88, 0x99, 0xaa, 0xbb, 0xcc, 0xdd, 0xee, 0xff]"

definition demo_token :: string where
  "demo_token = ''00112233445566778899aabbccddeeff00112233445566778899aabbccddeeff''"

definition nonce_oc :: nonce_outcomes where
  "nonce_oc = \<lparr>no_randomBytes = demo_bytes, no_now = 0, no_insert_fails = False,
               no_now_message = 0\<rparr>"

definition demo_message :: string where
  "demo_message = challenge_message demo_token ''1970-01-01T00:00:00.000Z''"

definition demo_signature :: string where
  "demo_signature = sign_A demo_message"

text \<open>The store after the nonce request \<open>nonce_oc\<close> for the wallet on the empty store.\<close>

definition issued_db :: db where
  "issued_db =
     \<lparr>auth_nonces = [\<lparr>n_id = 1, n_wallet_address = addr_A, n_nonce = demo_token,
                        n_expires_at = 300000, n_used = False\<rparr>],
      wallet_addresses = [], profiles = []\<rparr>"

text \<open>
  Verify requests: the first one, with an anonymous client and every store call answered;
  the same with both inserts refused, with the update refused, and with the nonce lookup
  returning an error; a later one, with the client signed in as the user the first one
  created; one made when the nonce expires between the lookup and the handler's check;
  one made after the nonce has expired.
\<close>

definition verify_ok :: verify_outcomes where
  "verify_ok =
     \<lparr>vo_nonce_select_fails = False, vo_db_now = 900, vo_now = 1000,
      vo_update_fails = False, vo_wallet_select_fails = False, vo_client = None,
      vo_signUp = Some ''user-1'', vo_profile_insert_fails = False,
      vo_wallet_insert_fails = False, vo_now_sign = 2000\<rparr>"

definition verify_inserts_fail :: verify_outcomes where
  "verify_inserts_fail =
     verify_ok\<lparr>vo_profile_insert_fails := True, vo_wallet_insert_fails := True\<rparr>"

definition verify_update_refused :: verify_outcomes where
  "verify_update_refused = verify_ok\<lparr>vo_update_fails := True\<rparr>"

definition verify_retry :: verify_outcomes where
  "verify_retry =
     verify_ok\<lparr>vo_db_now := 4900, vo_client := Some ''user-1'', vo_now := 5000,
               vo_now_sign := 6000\<rparr>"




text \<open>A store in which the wallet is linked to another user.\<close>

definition linked_db :: db where
  "linked_db =
     \<lparr>auth_nonces = [],
      wallet_addresses = [\<lparr>w_id = 1, w_user_id = ''user-2'', w_wallet_address = addr_A,
                             w_is_primary = True\<rparr>],
      profiles = []\<rparr>"


text \<open>The store after the first successful verification.\<close>

definition consumed_db :: db where
  "consumed_db =
     \<lparr>auth_nonces = [\<lparr>n_id = 1, n_wallet_address = addr_A, n_nonce = demo_token,
                        n_expires_at = 300000, n_used = True\<rparr>],
      wallet_addresses = [\<lparr>w_id = 1, w_user_id = ''user-1'', w_wallet_address = addr_A,
                             w_is_primary = True\<rparr>],
      profiles = [\<lparr>p_id = ''user-1'', p_email = addr_A_lower @ ''@wallet.dilsematchify.com'',
                     p_first_name = ''User'', p_last_name = ''0xd8dA6B'',
                     p_profile_completion = 10\<rparr>]\<rparr>"

section \<open>Properties\<close>

subsection \<open>The nonce token and its extraction\<close>





lemma match_here_token:
  assumes "t \<noteq> []" "\<forall>c\<in>set t. is_nonce_char c"
  shows "match_here (''Nonce: '' @ t @ CHR 10 # rest) = Some t"
proof -
  have nl: "\<not> is_nonce_char (CHR 10)" by (simp add: is_nonce_char_def)
  have "takeWhile is_nonce_char (t @ CHR 10 # rest) = t"
    using assms(2) nl by (simp add: takeWhile_tail)
  then show ?thesis using assms(1) by (simp add: match_here_def)
qed

text \<open>
  The preamble holds no earlier match, so the leftmost match of the pattern in a
  challenge message is at its own \<open>Nonce:\<close> line.
\<close>

lemma nonce_match_challenge:
  assumes "t \<noteq> []" "\<forall>c\<in>set t. is_nonce_char c"
  shows "nonce_match (challenge_message t ts) = Some t"
proof -
  have m: "match_here (''Nonce: '' @ t @ CHR 10 # (''Timestamp: '' @ ts)) = Some t"
    by (rule match_here_token [OF assms])
  show ?thesis
    unfolding challenge_message_def preamble_def
    using m by (simp add: match_here_def)
qed

text \<open>
  C5. Round trip: for a token of 64 characters of the class \<open>[a-f0-9]\<close>, which is what
  \<open>generateNonce\<close> returns for 32 bytes (\<open>generateNonce_length\<close>, \<open>generateNonce_class\<close>),
  the pattern match of the verify handler applied to the challenge message built from
  the token returns exactly the token, whatever the timestamp.
\<close>

theorem nonce_roundtrip:
  assumes "length token = 64" and "\<forall>c\<in>set token. is_nonce_char c"
  shows "nonce_match (challenge_message token timestamp) = Some token"
proof -
  from assms(1) have "token \<noteq> []" by auto
  then show ?thesis using assms(2) by (rule nonce_match_challenge)
qed

theorem nonce_roundtrip_witness:
  "nonce_match
     (challenge_message ''00112233445566778899aabbccddeeff00112233445566778899aabbccddeeff''
        ''2024-01-01T12:30:00.000Z'')
   = Some ''00112233445566778899aabbccddeeff00112233445566778899aabbccddeeff''"
  using nonce_roundtrip
    [of "''00112233445566778899aabbccddeeff00112233445566778899aabbccddeeff''"
        "''2024-01-01T12:30:00.000Z''"]
  by (simp add: is_nonce_char_def)

subsection \<open>The worked example\<close>

lemma demo_token_eq: "generateNonce demo_bytes = demo_token"
  by (simp add: generateNonce_def demo_bytes_def demo_token_def toString_hex_def hex_byte_def
      hex_digit_def)

lemma demo_token_class: "\<forall>c\<in>set demo_token. is_nonce_char c"
  by (simp add: demo_token_def is_nonce_char_def)

lemma demo_nonce_match: "nonce_match demo_message = Some demo_token"
  unfolding demo_message_def
  by (rule nonce_match_challenge [OF _ demo_token_class]) (simp add: demo_token_def)

lemma demo_message_nonempty: "demo_message \<noteq> []"
  by (simp add: demo_message_def challenge_message_def preamble_def)

lemma demo_iso_values:
  "demo_iso 0 = ''1970-01-01T00:00:00.000Z''"
  "demo_iso 300000 = ''1970-01-01T00:05:00.000Z''"
  by (simp_all add: demo_iso_def digit_def)

lemma demo_lower: "toLowerCase addr_A = addr_A_lower" "toLowerCase addr_B = addr_B_lower"
  by (simp_all add: toLowerCase_def lower_char_def addr_A_def addr_A_lower_def addr_B_def
      addr_B_lower_def)

lemma addr_distinct:
  "addr_A \<noteq> addr_A_lower" "addr_A \<noteq> addr_B" "addr_A \<noteq> addr_B_lower"
  "addr_B \<noteq> addr_A_lower" "addr_B \<noteq> addr_B_lower" "addr_A_lower \<noteq> addr_B_lower"
  by (simp_all add: addr_A_def addr_A_lower_def addr_B_def addr_B_lower_def)

lemma demo_getAddress:
  "getAddress demo_env addr_A_lower = Some addr_A" "getAddress demo_env addr_A = Some addr_A"
  "getAddress demo_env addr_B = Some addr_B"
  using addr_distinct by (simp_all add: demo_env_def)

lemma demo_getAddress_cases:
  "getAddress demo_env a = Some c \<Longrightarrow>
     (c = addr_A \<and> (a = addr_A \<or> a = addr_A_lower)) \<or>
     (c = addr_B \<and> (a = addr_B \<or> a = addr_B_lower))"
  by (simp add: demo_env_def split: if_splits)

lemma sign_distinct: "sign_A m \<noteq> sign_B m"
  by (simp add: sign_A_def sign_B_def)

lemma demo_verifyMessage:
  "verifyMessage demo_env m (sign_A m) = Some addr_A"
  "verifyMessage demo_env m (sign_B m) = Some addr_B"
  using sign_distinct [of m] by (simp_all add: demo_env_def)

lemma demo_verifyMessage_cases:
  "verifyMessage demo_env m s = Some a \<Longrightarrow> a = addr_A \<or> a = addr_B"
  by (simp add: demo_env_def split: if_splits)

lemma demo_forged_signature: "verifyMessage demo_env demo_message ''forged'' = None"
  by (simp add: demo_env_def sign_A_def sign_B_def)

lemma sign_nonempty: "sign_A m \<noteq> []" "sign_B m \<noteq> []"
  by (simp_all add: sign_A_def sign_B_def)

lemma demo_jwt_sign: "jwt_sign demo_env c k = ''jwt:'' @ c_userId c"
  by (simp add: demo_env_def)

lemma addr_A_nonempty: "addr_A_lower \<noteq> []" "addr_A \<noteq> []"
  by (simp_all add: addr_A_lower_def addr_A_def)

text \<open>The environment of the examples keeps the library's guarantees.\<close>

lemma demo_contract: "checksum_contract demo_env"
proof -
  have fixed: "getAddress demo_env a = Some a \<Longrightarrow> a = addr_A \<or> a = addr_B" for a
    using demo_getAddress_cases [of a a] by auto
  have low: "toLowerCase addr_A \<noteq> toLowerCase addr_B"
    by (simp add: demo_lower addr_distinct)
  show ?thesis
    unfolding checksum_contract_def
  proof (intro conjI allI impI)
    fix m s a assume "verifyMessage demo_env m s = Some a"
    then show "getAddress demo_env a = Some a"
      using demo_verifyMessage_cases [of m s a] demo_getAddress by auto
  next
    fix a c assume "getAddress demo_env a = Some c"
    then show "getAddress demo_env c = Some c"
      using demo_getAddress_cases [of a c] demo_getAddress by auto
  next
    fix a b
    assume "getAddress demo_env a = Some a" "getAddress demo_env b = Some b"
      "toLowerCase a = toLowerCase b"
    then show "a = b" using fixed [of a] fixed [of b] low by auto
  qed
qed

subsection \<open>Issuing a nonce\<close>

text \<open>
  C4. For a valid wallet address, when the insert is accepted (the store returns no error
  and the token is not yet in the table), the nonce handler appends one row for the
  checksummed address with \<open>used = false\<close> and \<open>expires_at\<close> five minutes after the
  clock reading, and answers with the token, the expiry, and the challenge message: the
  sentence \<open>Sign this message to authenticate with DilSe Matchify.\<close> and an empty
  line, then the line \<open>Nonce: token\<close>, then the line \<open>Timestamp: ISO time\<close>.
\<close>

theorem nonce_handler_issue:
  assumes "isAddress e walletAddress"
    and "\<not> no_insert_fails oc"
    and "generateNonce (no_randomBytes oc) \<notin> set (map n_nonce (auth_nonces d))"
  shows "\<exists>checksummed. getAddress e walletAddress = Some checksummed \<and>
     nonce_handler e oc walletAddress d =
       (NonceIssued (generateNonce (no_randomBytes oc))
          (''Sign this message to authenticate with DilSe Matchify.'' @ [CHR 10, CHR 10]
             @ ''Nonce: '' @ generateNonce (no_randomBytes oc) @ [CHR 10]
             @ ''Timestamp: '' @ toISOString e (no_now_message oc))
          (toISOString e (no_now oc + 5 * 60 * 1000)),
        d\<lparr>auth_nonces := auth_nonces d @
            [\<lparr>n_id = fresh_id (map n_id (auth_nonces d)), n_wallet_address = checksummed,
              n_nonce = generateNonce (no_randomBytes oc),
              n_expires_at = no_now oc + 5 * 60 * 1000, n_used = False\<rparr>]\<rparr>)"
  using assms
  by (auto simp: nonce_handler_def isAddress_def insert_nonce_def challenge_message_def
      preamble_def Let_def)

theorem nonce_handler_issue_witness:
  "nonce_handler demo_env nonce_oc addr_A_lower empty_db =
     (NonceIssued ''00112233445566778899aabbccddeeff00112233445566778899aabbccddeeff''
        (''Sign this message to authenticate with DilSe Matchify.'' @ [CHR 10, CHR 10]
           @ ''Nonce: 00112233445566778899aabbccddeeff00112233445566778899aabbccddeeff''
           @ [CHR 10] @ ''Timestamp: 1970-01-01T00:00:00.000Z'')
        ''1970-01-01T00:05:00.000Z'',
      \<lparr>auth_nonces =
         [\<lparr>n_id = 1, n_wallet_address = ''0xd8dA6BF26964aF9D7eEd9e03E53415D37aA96045'',
           n_nonce = ''00112233445566778899aabbccddeeff00112233445566778899aabbccddeeff'',
           n_expires_at = 300000, n_used = False\<rparr>],
       wallet_addresses = [], profiles = []\<rparr>)"
proof -
  have a: "isAddress demo_env addr_A_lower"
    by (simp add: isAddress_def demo_getAddress)
  have f: "\<not> no_insert_fails nonce_oc" by (simp add: nonce_oc_def)
  have n: "generateNonce (no_randomBytes nonce_oc) \<notin> set (map n_nonce (auth_nonces empty_db))"
    by (simp add: empty_db_def)
  have t: "generateNonce (no_randomBytes nonce_oc) = demo_token"
    by (simp add: nonce_oc_def demo_token_eq)
  have i: "toISOString demo_env (no_now_message nonce_oc) = ''1970-01-01T00:00:00.000Z''"
    "toISOString demo_env (no_now nonce_oc + 5 * 60 * 1000) = ''1970-01-01T00:05:00.000Z''"
    by (simp_all add: demo_env_def nonce_oc_def demo_iso_values)
  from nonce_handler_issue [OF a f n]
  show ?thesis
    unfolding t i
    by (simp add: demo_getAddress)
       (simp add: demo_token_def empty_db_def fresh_id_def addr_A_def nonce_oc_def)
qed

subsection \<open>The stages of the verify handler\<close>

lemma verify_pre_Inr:
  assumes "verify_pre e oc walletAddress signature message d = Inr (nid, cs)"
  shows "\<exists>w s m nonce row recovered.
           walletAddress = Some w \<and> signature = Some s \<and> message = Some m \<and>
           w \<noteq> [] \<and> s \<noteq> [] \<and> m \<noteq> [] \<and> getAddress e w = Some cs \<and>
           nonce_match m = Some nonce \<and>
           select_nonce (vo_nonce_select_fails oc) (vo_db_now oc) nonce cs d
             = (False, Some row) \<and>
           n_id row = nid \<and> \<not> n_expires_at row < vo_now oc \<and>
           verifyMessage e m s = Some recovered \<and>
           toLowerCase recovered = toLowerCase cs"
proof -
  from assms obtain w s m where
    ws: "walletAddress = Some w" "signature = Some s" "message = Some m"
    by (cases walletAddress; cases signature; cases message) simp_all
  from assms show ?thesis
    unfolding ws
    by (simp split: if_splits option.splits prod.splits)
qed

lemma verify_pre_Inl:
  assumes "verify_pre e oc walletAddress signature message d = Inl r"
  shows "\<exists>txt. r = ErrorResponse 400 txt \<or> r = ErrorResponse 401 txt"
proof (cases "\<exists>w s m. walletAddress = Some w \<and> signature = Some s \<and> message = Some m")
  case True
  then obtain w s m where
    ws: "walletAddress = Some w" "signature = Some s" "message = Some m" by blast
  from assms show ?thesis
    unfolding ws
    by (simp add: isAddress_def split: if_splits option.splits prod.splits) blast+
next
  case False
  then have "verify_pre e oc walletAddress signature message d
               = Inl (ErrorResponse 400 ''Missing required fields'')"
    by (cases walletAddress; cases signature; cases message) simp_all
  with assms show ?thesis by auto
qed

lemma update_used_wallets: "wallet_addresses (update_used f i d) = wallet_addresses d"
  by (simp add: update_used_def)

lemma select_wallet_absent:
  "\<forall>r\<in>set (wallet_addresses d). w_wallet_address r \<noteq> cs \<Longrightarrow>
   select_wallet f client cs d = None"
proof -
  assume "\<forall>r\<in>set (wallet_addresses d). w_wallet_address r \<noteq> cs"
  then have "filter (\<lambda>r. wallet_visible client r \<and> w_wallet_address r = cs)
               (wallet_addresses d) = []"
    by (simp add: filter_empty_conv)
  then show ?thesis by (simp add: select_wallet_def)
qed

lemma create_account_nonces: "auth_nonces (snd (create_account oc cs d)) = auth_nonces d"
  by (simp add: create_account_def insert_profile_def insert_wallet_def Let_def
      split: option.splits)

lemma resolve_identity_nonces: "auth_nonces (snd (resolve_identity oc cs d)) = auth_nonces d"
proof -
  obtain a d1 where c: "create_account oc cs d = (a, d1)"
    by (cases "create_account oc cs d")
  with create_account_nonces [of oc cs d] have "auth_nonces d1 = auth_nonces d" by simp
  with c show ?thesis
    by (simp add: resolve_identity_def Let_def split: option.splits)
qed

lemma verify_post_nonces:
  "auth_nonces (snd (verify_post e oc (nid, cs) d))
     = auth_nonces (update_used (vo_update_fails oc) nid d)"
proof -
  obtain a d1 where
    c: "resolve_identity oc cs (update_used (vo_update_fails oc) nid d) = (a, d1)"
    by (cases "resolve_identity oc cs (update_used (vo_update_fails oc) nid d)")
  with resolve_identity_nonces [of oc cs "update_used (vo_update_fails oc) nid d"]
  have "auth_nonces d1 = auth_nonces (update_used (vo_update_fails oc) nid d)" by simp
  with c show ?thesis
    by (simp add: verify_post_def split: option.splits)
qed




text \<open>Runs of the stages on the example.\<close>

lemma demo_select:
  "\<not> fails \<Longrightarrow> db_now < 300000 \<Longrightarrow>
   select_nonce fails db_now demo_token addr_A issued_db
     = (False, Some \<lparr>n_id = 1, n_wallet_address = addr_A, n_nonce = demo_token,
                      n_expires_at = 300000, n_used = False\<rparr>)"
  by (simp add: select_nonce_def nonce_visible_def issued_db_def)

lemma demo_pre:
  "\<not> vo_nonce_select_fails oc \<Longrightarrow> vo_db_now oc < 300000 \<Longrightarrow> vo_now oc \<le> 300000 \<Longrightarrow>
   verify_pre demo_env oc (Some addr_A_lower) (Some demo_signature) (Some demo_message)
     issued_db = Inr (1, addr_A)"
  by (simp add: demo_nonce_match demo_message_nonempty demo_signature_def isAddress_def
      demo_getAddress demo_verifyMessage sign_nonempty addr_A_nonempty demo_select)

lemma demo_pre_A:
  "\<not> vo_nonce_select_fails oc \<Longrightarrow> vo_db_now oc < 300000 \<Longrightarrow> vo_now oc \<le> 300000 \<Longrightarrow>
   verify_pre demo_env oc (Some addr_A) (Some demo_signature) (Some demo_message)
     issued_db = Inr (1, addr_A)"
  by (simp add: demo_nonce_match demo_message_nonempty demo_signature_def isAddress_def
      demo_getAddress demo_verifyMessage sign_nonempty addr_A_nonempty demo_select)

lemma demo_pre_ok:
  "verify_pre demo_env verify_ok (Some addr_A_lower) (Some demo_signature) (Some demo_message)
     issued_db = Inr (1, addr_A)"
  by (rule demo_pre) (simp_all add: verify_ok_def)

lemma demo_forged:
  "verify demo_env verify_ok (Some addr_A) (Some ''forged'') (Some demo_message) issued_db
     = (ErrorResponse 401 ''Invalid signature'', issued_db)"
proof -
  have "verify_pre demo_env verify_ok (Some addr_A) (Some ''forged'') (Some demo_message)
               issued_db = Inl (ErrorResponse 401 ''Invalid signature'')"
    by (simp add: demo_nonce_match demo_message_nonempty isAddress_def demo_getAddress
        addr_A_nonempty demo_select demo_forged_signature verify_ok_def)
  then show ?thesis by (simp add: verify_def)
qed

lemma demo_post_new:
  "vo_signUp oc = Some ''user-1'' \<Longrightarrow>
   fst (verify_post demo_env oc (1, addr_A) issued_db)
     = Verified ''jwt:user-1'' ''user-1'' addr_A True ''Account created successfully''"
  by (simp add: verify_post_def resolve_identity_def create_account_def select_wallet_def
      update_used_def insert_profile_def insert_wallet_def sign_7d_def Let_def
      issued_db_def demo_jwt_sign split: option.splits)

lemma demo_post_ok:
  "verify_post demo_env verify_ok (1, addr_A) issued_db
     = (Verified ''jwt:user-1'' ''user-1'' addr_A True ''Account created successfully'',
        consumed_db)"
  by (simp add: verify_post_def resolve_identity_def create_account_def
        select_wallet_def update_used_def insert_profile_def insert_wallet_def sign_7d_def
        fresh_id_def demo_lower Let_def verify_ok_def issued_db_def demo_jwt_sign
        consumed_db_def)
     (simp add: addr_A_def)

lemma demo_post_again:
  "fst (verify_post demo_env verify_retry (1, addr_A) consumed_db)
     = Verified ''jwt:user-1'' ''user-1'' addr_A False ''Login successful''"
  by (simp add: verify_post_def resolve_identity_def select_wallet_def wallet_visible_def
      update_used_def sign_7d_def Let_def consumed_db_def demo_jwt_sign verify_retry_def
      verify_ok_def)

subsection \<open>The signature check\<close>

text \<open>
  What line 131 tests: for a request that has passed the nonce checks, the lower-case
  spelling of the recovered address against that of the checksummed claimed address.
\<close>

lemma signature_stage:
  assumes "w \<noteq> []" and "sg \<noteq> []" and "m \<noteq> []"
    and "getAddress e w = Some cs"
    and "nonce_match m = Some nonce"
    and "select_nonce (vo_nonce_select_fails oc) (vo_db_now oc) nonce cs d = (False, Some row)"
    and "\<not> n_expires_at row < vo_now oc"
  shows "verify_pre e oc (Some w) (Some sg) (Some m) d =
           (case verifyMessage e m sg of
              None \<Rightarrow> Inl (ErrorResponse 401 ''Invalid signature'')
            | Some recovered \<Rightarrow>
                if toLowerCase recovered \<noteq> toLowerCase cs
                then Inl (ErrorResponse 401 ''Signature does not match wallet address'')
                else Inr (n_id row, cs))"
  using assms by (simp add: isAddress_def)

text \<open>
  On the addresses the library produces, equal lower-case spellings and equal checksum
  forms are the same thing.
\<close>

lemma lower_case_test_is_exact:
  assumes "checksum_contract e"
    and "getAddress e w = Some cs"
    and "verifyMessage e m sg = Some recovered"
  shows "(toLowerCase recovered = toLowerCase cs) = (getAddress e recovered = getAddress e w)"
proof -
  from assms(1,3) have r: "getAddress e recovered = Some recovered"
    by (auto simp: checksum_contract_def)
  from assms(1,2) have c: "getAddress e cs = Some cs"
    by (auto simp: checksum_contract_def)
  from assms(1) have
    k: "\<And>a b. getAddress e a = Some a \<Longrightarrow> getAddress e b = Some b \<Longrightarrow>
             toLowerCase a = toLowerCase b \<Longrightarrow> a = b"
    by (auto simp: checksum_contract_def)
  show ?thesis
  proof
    assume "toLowerCase recovered = toLowerCase cs"
    with k [OF r c] have "recovered = cs" by simp
    with r assms(2) show "getAddress e recovered = getAddress e w" by simp
  next
    assume "getAddress e recovered = getAddress e w"
    with r assms(2) show "toLowerCase recovered = toLowerCase cs" by simp
  qed
qed

text \<open>
  C2. With the library returning its addresses in checksum form (\<open>checksum_contract\<close>), a
  request that has passed the nonce checks passes the signature check if and only if
  recovery returns an address whose checksum form is equal to the checksum form of the
  claimed address; it is answered 401 \<open>Signature does not match wallet address\<close> if and
  only if recovery returns an address whose checksum form is a different one, and 401
  \<open>Invalid signature\<close> if and only if recovery throws. The handler tests the lower-case
  spellings of the two addresses, which on checksum forms is the exact comparison
  (\<open>lower_case_test_is_exact\<close>).
\<close>

theorem verify_normalized_comparison:
  assumes "checksum_contract e"
    and "w \<noteq> []" and "sg \<noteq> []" and "m \<noteq> []"
    and "getAddress e w = Some cs"
    and "nonce_match m = Some nonce"
    and "select_nonce (vo_nonce_select_fails oc) (vo_db_now oc) nonce cs d = (False, Some row)"
    and "\<not> n_expires_at row < vo_now oc"
  shows "((\<exists>c. verify_pre e oc (Some w) (Some sg) (Some m) d = Inr c) \<longleftrightarrow>
            (\<exists>recovered. verifyMessage e m sg = Some recovered \<and>
                         getAddress e recovered = getAddress e w))
       \<and> (verify_pre e oc (Some w) (Some sg) (Some m) d
            = Inl (ErrorResponse 401 ''Signature does not match wallet address'') \<longleftrightarrow>
            (\<exists>recovered. verifyMessage e m sg = Some recovered \<and>
                         getAddress e recovered \<noteq> getAddress e w))
       \<and> (verify_pre e oc (Some w) (Some sg) (Some m) d
            = Inl (ErrorResponse 401 ''Invalid signature'') \<longleftrightarrow>
            verifyMessage e m sg = None)"
proof (cases "verifyMessage e m sg")
  case None
  with signature_stage [OF assms(2-8)] show ?thesis by simp
next
  case (Some recovered)
  from lower_case_test_is_exact [OF assms(1,5) Some] signature_stage [OF assms(2-8)] Some
  show ?thesis by auto
qed

theorem verify_normalized_comparison_witness:
  "(\<exists>c. verify_pre demo_env verify_ok (Some addr_A_lower) (Some (sign_A demo_message))
          (Some demo_message) issued_db = Inr c)
   \<and> verifyMessage demo_env demo_message (sign_A demo_message) = Some addr_A
   \<and> getAddress demo_env addr_A = getAddress demo_env addr_A_lower
   \<and> verify_pre demo_env verify_ok (Some addr_A_lower) (Some (sign_B demo_message))
       (Some demo_message) issued_db
     = Inl (ErrorResponse 401 ''Signature does not match wallet address'')
   \<and> verifyMessage demo_env demo_message (sign_B demo_message) = Some addr_B
   \<and> getAddress demo_env addr_B \<noteq> getAddress demo_env addr_A_lower
   \<and> verify_pre demo_env verify_ok (Some addr_A_lower) (Some ''forged'') (Some demo_message)
       issued_db = Inl (ErrorResponse 401 ''Invalid signature'')
   \<and> verifyMessage demo_env demo_message ''forged'' = None"
proof -
  have sel: "select_nonce (vo_nonce_select_fails verify_ok) (vo_db_now verify_ok) demo_token
               addr_A issued_db
     = (False, Some \<lparr>n_id = 1, n_wallet_address = addr_A, n_nonce = demo_token,
                      n_expires_at = 300000, n_used = False\<rparr>)"
    by (rule demo_select) (simp_all add: verify_ok_def)
  have ne: "\<not> n_expires_at \<lparr>n_id = 1, n_wallet_address = addr_A, n_nonce = demo_token,
                      n_expires_at = 300000, n_used = False\<rparr> < vo_now verify_ok"
    by (simp add: verify_ok_def)
  have fg: "''forged'' \<noteq> []" by simp
  note t = verify_normalized_comparison
             [OF demo_contract addr_A_nonempty(1) _ demo_message_nonempty demo_getAddress(1)
                 demo_nonce_match sel ne]
  have ab: "getAddress demo_env addr_B \<noteq> getAddress demo_env addr_A_lower"
    using addr_distinct by (simp add: demo_getAddress)
  from t [OF sign_nonempty(1)] t [OF sign_nonempty(2)] t [OF fg]
       demo_verifyMessage [of demo_message] demo_forged_signature demo_getAddress ab
  show ?thesis by simp
qed

subsection \<open>Rejected requests\<close>

text \<open>
  C8, as the handler implements it. A verify request answered 400 or 401 (missing field,
  invalid address, bad message format, no nonce row returned, expired nonce, invalid
  signature, address mismatch) leaves the store as it was, and every later request is
  answered exactly as it would have been had the rejected one not been made: the nonce is
  marked used only after the signature has been accepted, and such a rejection is not
  terminal for the nonce.
\<close>

theorem verify_rejection_leaves_store:
  assumes "fst (verify e oc walletAddress signature message d) = ErrorResponse status text"
    and "status = 400 \<or> status = 401"
  shows "snd (verify e oc walletAddress signature message d) = d
       \<and> verify e oc2 walletAddress2 signature2 message2
           (snd (verify e oc walletAddress signature message d))
         = verify e oc2 walletAddress2 signature2 message2 d"
proof -
  have "snd (verify e oc walletAddress signature message d) = d"
  proof (cases "verify_pre e oc walletAddress signature message d")
    case (Inl r)
    then show ?thesis by (simp add: verify_def)
  next
    case (Inr c)
    with assms show ?thesis
      by (cases c) (auto simp: verify_def verify_post_def split: prod.splits option.splits)
  qed
  then show ?thesis by simp
qed

theorem verify_rejection_leaves_store_witness:
  "fst (verify demo_env verify_ok (Some addr_A) (Some ''forged'') (Some demo_message)
          issued_db) = ErrorResponse 401 ''Invalid signature''
   \<and> snd (verify demo_env verify_ok (Some addr_A) (Some ''forged'') (Some demo_message)
            issued_db) = issued_db
   \<and> verify demo_env verify_retry (Some addr_A) (Some demo_signature) (Some demo_message)
       (snd (verify demo_env verify_ok (Some addr_A) (Some ''forged'') (Some demo_message)
               issued_db))
     = verify demo_env verify_retry (Some addr_A) (Some demo_signature) (Some demo_message)
         issued_db"
proof -
  have f: "fst (verify demo_env verify_ok (Some addr_A) (Some ''forged'') (Some demo_message)
          issued_db) = ErrorResponse 401 ''Invalid signature''"
    by (simp only: demo_forged fst_conv)
  have s: "(401::nat) = 400 \<or> (401::nat) = 401" by simp
  from verify_rejection_leaves_store [OF f s] f show ?thesis by blast
qed

text \<open>
  A request with a forged signature is rejected, and a later request presenting the same
  nonce with the wallet's signature succeeds.
\<close>

theorem verify_failure_not_terminal:
  "fst (verify demo_env verify_ok (Some addr_A) (Some ''forged'') (Some demo_message)
          issued_db)
     = ErrorResponse 401 ''Invalid signature''
   \<and> fst (verify demo_env verify_retry (Some addr_A) (Some demo_signature) (Some demo_message)
            (snd (verify demo_env verify_ok (Some addr_A) (Some ''forged'')
                    (Some demo_message) issued_db)))
     = Verified ''jwt:user-1'' ''user-1'' addr_A True ''Account created successfully''"
proof -
  have pre: "verify_pre demo_env verify_retry (Some addr_A) (Some demo_signature)
               (Some demo_message) issued_db = Inr (1, addr_A)"
    by (rule demo_pre_A) (simp_all add: verify_retry_def verify_ok_def)
  have post: "fst (verify_post demo_env verify_retry (1, addr_A) issued_db)
     = Verified ''jwt:user-1'' ''user-1'' addr_A True ''Account created successfully''"
    by (rule demo_post_new) (simp_all add: verify_retry_def verify_ok_def)
  have second: "fst (verify demo_env verify_retry (Some addr_A) (Some demo_signature)
                       (Some demo_message) issued_db)
     = Verified ''jwt:user-1'' ''user-1'' addr_A True ''Account created successfully''"
    by (simp only: verify_def pre sum.case post)
  show ?thesis
    by (simp only: demo_forged fst_conv snd_conv) (intro conjI refl second)
qed

subsection \<open>Single use of a nonce\<close>






text \<open>
  Whether the nonce gets marked is decided by the update of lines 135-138, whose result
  the handler does not read. When the store refuses the update, the nonce stays unused
  and the same request is accepted a second time.
\<close>

lemma replay_when_update_refused:
  "fst (verify demo_env verify_update_refused (Some addr_A) (Some demo_signature)
          (Some demo_message) issued_db)
     = Verified ''jwt:user-1'' ''user-1'' addr_A True ''Account created successfully''
   \<and> auth_nonces (snd (verify demo_env verify_update_refused (Some addr_A)
          (Some demo_signature) (Some demo_message) issued_db)) = auth_nonces issued_db
   \<and> fst (verify demo_env (verify_retry\<lparr>vo_update_fails := True\<rparr>) (Some addr_A)
            (Some demo_signature) (Some demo_message)
            (snd (verify demo_env verify_update_refused (Some addr_A)
                    (Some demo_signature) (Some demo_message) issued_db)))
       = Verified ''jwt:user-1'' ''user-1'' addr_A False ''Login successful''"
proof -
  let ?d1 = "snd (verify demo_env verify_update_refused (Some addr_A)
                    (Some demo_signature) (Some demo_message) issued_db)"
  have pre: "verify_pre demo_env verify_update_refused (Some addr_A) (Some demo_signature)
               (Some demo_message) issued_db = Inr (1, addr_A)"
    by (rule demo_pre_A) (simp_all add: verify_update_refused_def verify_ok_def)
  have post: "verify_post demo_env verify_update_refused (1, addr_A) issued_db
     = (Verified ''jwt:user-1'' ''user-1'' addr_A True ''Account created successfully'',
        consumed_db\<lparr>auth_nonces := auth_nonces issued_db\<rparr>)"
    by (simp add: verify_post_def resolve_identity_def create_account_def
        select_wallet_def update_used_def insert_profile_def insert_wallet_def sign_7d_def
        fresh_id_def demo_lower Let_def verify_update_refused_def verify_ok_def issued_db_def
        demo_jwt_sign consumed_db_def)
       (simp add: addr_A_def)
  have run: "verify demo_env verify_update_refused (Some addr_A) (Some demo_signature)
               (Some demo_message) issued_db
     = (Verified ''jwt:user-1'' ''user-1'' addr_A True ''Account created successfully'',
        consumed_db\<lparr>auth_nonces := auth_nonces issued_db\<rparr>)"
    by (simp only: verify_def pre sum.case post)
  have d1: "?d1 = consumed_db\<lparr>auth_nonces := auth_nonces issued_db\<rparr>"
    by (simp only: run snd_conv)
  let ?d2 = "consumed_db\<lparr>auth_nonces := auth_nonces issued_db\<rparr>"
  have pre2: "verify_pre demo_env (verify_retry\<lparr>vo_update_fails := True\<rparr>) (Some addr_A)
               (Some demo_signature) (Some demo_message) ?d2 = Inr (1, addr_A)"
    by (simp add: demo_nonce_match demo_message_nonempty demo_signature_def isAddress_def
        demo_getAddress demo_verifyMessage sign_nonempty addr_A_nonempty select_nonce_def
        nonce_visible_def issued_db_def verify_retry_def verify_ok_def)
  have post2: "fst (verify_post demo_env (verify_retry\<lparr>vo_update_fails := True\<rparr>)
                      (1, addr_A) ?d2)
     = Verified ''jwt:user-1'' ''user-1'' addr_A False ''Login successful''"
    by (simp add: verify_post_def resolve_identity_def select_wallet_def wallet_visible_def
        update_used_def sign_7d_def Let_def consumed_db_def demo_jwt_sign verify_retry_def
        verify_ok_def)
  have second: "fst (verify demo_env (verify_retry\<lparr>vo_update_fails := True\<rparr>) (Some addr_A)
               (Some demo_signature) (Some demo_message) ?d2)
     = Verified ''jwt:user-1'' ''user-1'' addr_A False ''Login successful''"
    by (simp only: verify_def pre2 sum.case post2)
  have one: "fst (verify demo_env verify_update_refused (Some addr_A) (Some demo_signature)
          (Some demo_message) issued_db)
     = Verified ''jwt:user-1'' ''user-1'' addr_A True ''Account created successfully''"
    by (simp only: run fst_conv)
  have two: "auth_nonces ?d2 = auth_nonces issued_db" by simp
  show ?thesis
    unfolding d1 using one two second by blast
qed

subsection \<open>Two requests in flight\<close>

text \<open>
  C3. The nonce is read by the select of lines 107-113 and marked by the update of lines
  135-138, with the signature check between them, and the update is not conditional on
  \<open>used = false\<close>. When two requests presenting the same nonce both run their select before
  either runs its update, both pass the checks and both are answered with a session
  token: the first as a new account, the second as a login.
\<close>

theorem verify_race_both_succeed:
  "verify_pre demo_env verify_ok (Some addr_A) (Some demo_signature) (Some demo_message)
     issued_db = Inr (1, addr_A)
   \<and> verify_pre demo_env verify_retry (Some addr_A) (Some demo_signature) (Some demo_message)
       issued_db = Inr (1, addr_A)
   \<and> fst (verify_post demo_env verify_ok (1, addr_A) issued_db)
       = Verified ''jwt:user-1'' ''user-1'' addr_A True ''Account created successfully''
   \<and> fst (verify_post demo_env verify_retry (1, addr_A)
            (snd (verify_post demo_env verify_ok (1, addr_A) issued_db)))
       = Verified ''jwt:user-1'' ''user-1'' addr_A False ''Login successful''"
proof -
  have a: "verify_pre demo_env verify_ok (Some addr_A) (Some demo_signature)
             (Some demo_message) issued_db = Inr (1, addr_A)"
    by (rule demo_pre_A) (simp_all add: verify_ok_def)
  have b: "verify_pre demo_env verify_retry (Some addr_A) (Some demo_signature)
             (Some demo_message) issued_db = Inr (1, addr_A)"
    by (rule demo_pre_A) (simp_all add: verify_retry_def verify_ok_def)
  show ?thesis
    by (simp only: a b demo_post_ok fst_conv snd_conv demo_post_again simp_thms)
qed

subsection \<open>The session token\<close>

text \<open>
  C6. Whenever the verify handler answers with success, the token is the signature, under
  the server's secret, of the payload holding exactly the user id of the response, the
  checksummed wallet address and \<open>authMethod = wallet\<close>, issued at the clock reading (in
  seconds) and expiring seven days later. Signing is a function of these values only: the
  store returned is the one left by the identity resolution.
\<close>

theorem verify_token_payload:
  assumes "verify e oc walletAddress signature message d
             = (Verified token userId address isNewUser text, d')"
  shows "\<exists>w nid. walletAddress = Some w \<and> getAddress e w = Some address \<and>
           token = jwt_sign e
                     \<lparr>c_userId = userId, c_walletAddress = address, c_authMethod = ''wallet'',
                      c_iat = vo_now_sign oc div 1000,
                      c_exp = vo_now_sign oc div 1000 + 7 * 24 * 60 * 60\<rparr>
                     (JWT_SECRET e) \<and>
           d' = snd (resolve_identity oc address (update_used (vo_update_fails oc) nid d))"
proof (cases "verify_pre e oc walletAddress signature message d")
  case (Inl r)
  with assms show ?thesis using verify_pre_Inl [OF Inl] by (auto simp: verify_def)
next
  case (Inr c)
  obtain nid cs where c: "c = (nid, cs)" by (cases c)
  from Inr c obtain w where w: "walletAddress = Some w" "getAddress e w = Some cs"
    using verify_pre_Inr [of e oc walletAddress signature message d nid cs] by auto
  from assms Inr c w show ?thesis
    by (intro exI [of _ w] exI [of _ nid])
       (auto simp: verify_def verify_post_def sign_7d_def split: prod.splits option.splits)
qed

theorem verify_token_payload_witness:
  "verify demo_env verify_ok (Some addr_A_lower) (Some demo_signature) (Some demo_message)
     issued_db
   = (Verified ''jwt:user-1'' ''user-1'' addr_A True ''Account created successfully'',
      \<lparr>auth_nonces = [\<lparr>n_id = 1, n_wallet_address = addr_A, n_nonce = demo_token,
                         n_expires_at = 300000, n_used = True\<rparr>],
       wallet_addresses = [\<lparr>w_id = 1, w_user_id = ''user-1'', w_wallet_address = addr_A,
                              w_is_primary = True\<rparr>],
       profiles = [\<lparr>p_id = ''user-1'', p_email = addr_A_lower @ ''@wallet.dilsematchify.com'',
                      p_first_name = ''User'', p_last_name = ''0xd8dA6B'',
                      p_profile_completion = 10\<rparr>]\<rparr>)
   \<and> getAddress demo_env addr_A_lower = Some addr_A
   \<and> ''jwt:user-1'' = jwt_sign demo_env
         \<lparr>c_userId = ''user-1'', c_walletAddress = addr_A, c_authMethod = ''wallet'',
          c_iat = 2, c_exp = 604802\<rparr> (JWT_SECRET demo_env)"
proof -
  have run: "verify demo_env verify_ok (Some addr_A_lower) (Some demo_signature)
               (Some demo_message) issued_db
     = (Verified ''jwt:user-1'' ''user-1'' addr_A True ''Account created successfully'',
      \<lparr>auth_nonces = [\<lparr>n_id = 1, n_wallet_address = addr_A, n_nonce = demo_token,
                         n_expires_at = 300000, n_used = True\<rparr>],
       wallet_addresses = [\<lparr>w_id = 1, w_user_id = ''user-1'', w_wallet_address = addr_A,
                              w_is_primary = True\<rparr>],
       profiles = [\<lparr>p_id = ''user-1'', p_email = addr_A_lower @ ''@wallet.dilsematchify.com'',
                      p_first_name = ''User'', p_last_name = ''0xd8dA6B'',
                      p_profile_completion = 10\<rparr>]\<rparr>)"
    unfolding verify_def demo_pre_ok
    by (simp add: verify_post_def resolve_identity_def create_account_def
        select_wallet_def update_used_def insert_profile_def insert_wallet_def sign_7d_def
        fresh_id_def demo_lower Let_def verify_ok_def issued_db_def demo_jwt_sign)
       (simp add: addr_A_def)
  from verify_token_payload [OF run] show ?thesis
    using run by (simp add: verify_ok_def demo_getAddress demo_jwt_sign)
qed

subsection \<open>Account creation for a new wallet\<close>

text \<open>
  C9. In a verify request that passes the nonce and signature checks for an address no
  wallet row holds, once the sign-up has returned a user id the response is success for
  that new user, whatever the outcome of the profile insert and of the wallet insert
  (both only log their error). When the wallet insert fails, the table of wallet links is
  as before: success is returned with no link persisted for the address.
\<close>

theorem verify_new_wallet_inserts_only_logged:
  assumes "verify_pre e oc walletAddress signature message d = Inr (nid, cs)"
    and "\<forall>r\<in>set (wallet_addresses d). w_wallet_address r \<noteq> cs"
    and "vo_signUp oc = Some userId"
  shows "fst (verify e oc walletAddress signature message d)
           = Verified (sign_7d e userId cs ''wallet'' (vo_now_sign oc)) userId cs True
               ''Account created successfully''
         \<and> (vo_wallet_insert_fails oc \<longrightarrow>
              wallet_addresses (snd (verify e oc walletAddress signature message d))
                = wallet_addresses d)"
proof -
  let ?d1 = "update_used (vo_update_fails oc) nid d"
  have "select_wallet (vo_wallet_select_fails oc) (vo_client oc) cs ?d1 = None"
    using assms(2) by (intro select_wallet_absent) (simp add: update_used_wallets)
  then show ?thesis
    using assms(1,3)
    by (auto simp: verify_def verify_post_def resolve_identity_def create_account_def Let_def
        insert_wallet_def insert_profile_def update_used_wallets
        split: option.splits prod.splits)
qed


theorem verify_new_wallet_inserts_only_logged_witness:
  "fst (verify demo_env verify_inserts_fail (Some addr_A_lower) (Some demo_signature)
          (Some demo_message) issued_db)
     = Verified ''jwt:user-1'' ''user-1'' addr_A True ''Account created successfully''
   \<and> wallet_addresses (snd (verify demo_env verify_inserts_fail (Some addr_A_lower)
          (Some demo_signature) (Some demo_message) issued_db)) = []"
proof -
  have pre: "verify_pre demo_env verify_inserts_fail (Some addr_A_lower) (Some demo_signature)
     (Some demo_message) issued_db = Inr (1, addr_A)"
    by (rule demo_pre) (simp_all add: verify_inserts_fail_def verify_ok_def)
  have absent: "\<forall>r\<in>set (wallet_addresses issued_db). w_wallet_address r \<noteq> addr_A"
    by (simp add: issued_db_def)
  have su: "vo_signUp verify_inserts_fail = Some ''user-1''"
    and wf: "vo_wallet_insert_fails verify_inserts_fail"
    and ns: "vo_now_sign verify_inserts_fail = 2000"
    by (simp_all add: verify_inserts_fail_def verify_ok_def)
  from verify_new_wallet_inserts_only_logged [OF pre absent su] wf ns show ?thesis
    by (simp add: sign_7d_def issued_db_def demo_jwt_sign)
qed

subsection \<open>Linking a wallet\<close>

lemma demo_jwt_verify:
  "now < 604800000 \<Longrightarrow>
   jwt_verify demo_env ''jwt:user-1'' k now
     = Some \<lparr>c_userId = ''user-1'', c_walletAddress = addr_A, c_authMethod = ''wallet'',
              c_iat = 0, c_exp = 604800\<rparr>"
  by (simp add: demo_env_def)

lemma insert_wallet_None:
  "wallet \<in> set (map w_wallet_address (wallet_addresses d)) \<Longrightarrow>
   insert_wallet fails user wallet primary d = None"
  by (simp add: insert_wallet_def)

text \<open>
  For a link request whose token verifies with the request's user id as subject and
  whose address converts to checksum form: when a wallet row of any owner holds the
  address, nothing is persisted, and the answer is 400
  \<open>Wallet already linked to another account\<close> if the lookup of lines 250-254 returns a row
  and 500 \<open>Failed to link wallet\<close> if it returns none, since the unique column then
  refuses the insert.
\<close>

lemma link_wallet_held:
  assumes "walletAddress \<noteq> []" and "userId \<noteq> []" and "authToken \<noteq> []"
    and "jwt_verify e authToken (JWT_SECRET e) (lo_now oc) = Some decoded"
    and "c_userId decoded = userId"
    and "getAddress e walletAddress = Some cs"
    and "cs \<in> set (map w_wallet_address (wallet_addresses d))"
  shows "link_wallet e oc (Some walletAddress) (Some userId) (Some authToken) d =
           (if select_wallet (lo_existing_select_fails oc) (lo_client oc) cs d = None
            then ErrorResponse 500 ''Failed to link wallet''
            else ErrorResponse 400 ''Wallet already linked to another account'', d)"
proof -
  have n: "insert_wallet fails userId cs primary d = None" for fails primary
    using assms(7) by (rule insert_wallet_None)
  from assms(1-6) show ?thesis
    by (simp add: n Let_def split: option.splits)
qed

text \<open>
  The lookup returns a row only to a client signed in as the owner of the link: a link of
  another user is hidden from it, as is every link from the anonymous client.
\<close>

lemma select_wallet_hidden:
  assumes "\<forall>r\<in>set (wallet_addresses d). w_wallet_address r = cs \<longrightarrow> client \<noteq> Some (w_user_id r)"
  shows "select_wallet fails client cs d = None"
proof -
  from assms have "filter (\<lambda>r. wallet_visible client r \<and> w_wallet_address r = cs)
                     (wallet_addresses d) = []"
    by (auto simp: filter_empty_conv wallet_visible_def)
  then show ?thesis by (simp add: select_wallet_def)
qed

text \<open>
  C7. The wallet is linked to another user. A link request for it, with a valid token of
  the caller and every store call answered, is made through the anonymous client, then
  through a client signed in as the caller, then with the lookup returning an error. Each
  time the lookup gives the handler no row, the handler goes on to the insert, which the
  unique column refuses, and the answer is 500 \<open>Failed to link wallet\<close>, not 400
  \<open>Wallet already linked to another account\<close>. Nothing is persisted.
\<close>

theorem link_wallet_hidden_link:
  "map w_wallet_address (wallet_addresses linked_db) = [addr_A]
   \<and> link_wallet demo_env link_ok (Some addr_A_lower) (Some ''user-1'') (Some ''jwt:user-1'')
       linked_db
     = (ErrorResponse 500 ''Failed to link wallet'', linked_db)
   \<and> link_wallet demo_env link_signed_in (Some addr_A_lower) (Some ''user-1'')
       (Some ''jwt:user-1'') linked_db
     = (ErrorResponse 500 ''Failed to link wallet'', linked_db)
   \<and> link_wallet demo_env (link_ok\<lparr>lo_existing_select_fails := True\<rparr>) (Some addr_A_lower)
       (Some ''user-1'') (Some ''jwt:user-1'') linked_db
     = (ErrorResponse 500 ''Failed to link wallet'', linked_db)"
proof -
  have held: "addr_A \<in> set (map w_wallet_address (wallet_addresses linked_db))"
    by (simp add: linked_db_def)
  have u: "''user-1'' \<noteq> []" "''jwt:user-1'' \<noteq> []" by simp_all
  have j: "jwt_verify demo_env ''jwt:user-1'' (JWT_SECRET demo_env) (lo_now oc)
             = Some \<lparr>c_userId = ''user-1'', c_walletAddress = addr_A,
                      c_authMethod = ''wallet'', c_iat = 0, c_exp = 604800\<rparr>"
    if "lo_now oc = 1000" for oc
    using that by (intro demo_jwt_verify) simp
  have l: "link_wallet demo_env oc (Some addr_A_lower) (Some ''user-1'') (Some ''jwt:user-1'')
             linked_db = (ErrorResponse 500 ''Failed to link wallet'', linked_db)"
    if "lo_now oc = 1000"
      and "select_wallet (lo_existing_select_fails oc) (lo_client oc) addr_A linked_db = None"
    for oc
    using link_wallet_held [OF addr_A_nonempty(1) u j [OF that(1)] _ demo_getAddress(1) held]
      that(2) by simp
  have a: "link_wallet demo_env link_ok (Some addr_A_lower) (Some ''user-1'')
             (Some ''jwt:user-1'') linked_db
           = (ErrorResponse 500 ''Failed to link wallet'', linked_db)"
    by (rule l) (simp_all add: link_ok_def select_wallet_def wallet_visible_def linked_db_def)
  have b: "link_wallet demo_env link_signed_in (Some addr_A_lower) (Some ''user-1'')
             (Some ''jwt:user-1'') linked_db
           = (ErrorResponse 500 ''Failed to link wallet'', linked_db)"
    by (rule l)
       (simp_all add: link_signed_in_def link_ok_def select_wallet_def wallet_visible_def
          linked_db_def)
  have c: "link_wallet demo_env (link_ok\<lparr>lo_existing_select_fails := True\<rparr>)
             (Some addr_A_lower) (Some ''user-1'') (Some ''jwt:user-1'') linked_db
           = (ErrorResponse 500 ''Failed to link wallet'', linked_db)"
    by (rule l) (simp_all add: link_ok_def select_wallet_def)
  have m: "map w_wallet_address (wallet_addresses linked_db) = [addr_A]"
    by (simp add: linked_db_def)
  from m a b c show ?thesis by blast
qed

text \<open>
  The 400 answer is reached when the client is signed in as the owner of the link, here
  the caller asking again for a wallet that is already theirs.
\<close>

lemma link_wallet_own_link:
  "link_wallet demo_env link_signed_in (Some addr_A_lower) (Some ''user-1'')
     (Some ''jwt:user-1'') consumed_db
   = (ErrorResponse 400 ''Wallet already linked to another account'', consumed_db)"
proof -
  have held: "addr_A \<in> set (map w_wallet_address (wallet_addresses consumed_db))"
    by (simp add: consumed_db_def)
  have u: "''user-1'' \<noteq> []" "''jwt:user-1'' \<noteq> []" by simp_all
  have j: "jwt_verify demo_env ''jwt:user-1'' (JWT_SECRET demo_env) (lo_now link_signed_in)
             = Some \<lparr>c_userId = ''user-1'', c_walletAddress = addr_A,
                      c_authMethod = ''wallet'', c_iat = 0, c_exp = 604800\<rparr>"
    by (intro demo_jwt_verify) (simp add: link_signed_in_def link_ok_def)
  have s: "select_wallet (lo_existing_select_fails link_signed_in) (lo_client link_signed_in)
             addr_A consumed_db \<noteq> None"
    by (simp add: link_signed_in_def link_ok_def select_wallet_def wallet_visible_def
        consumed_db_def)
  from link_wallet_held [OF addr_A_nonempty(1) u j _ demo_getAddress(1) held] s
  show ?thesis by simp
qed

text \<open>
  C10. A link request with all three fields present and a token that verifies with the
  request's user id as subject, but a wallet address that \<open>getAddress\<close> rejects, is
  answered 500 \<open>Internal server error\<close>: the address is not validated before the
  conversion, whose exception reaches the handler's catch. The store is unchanged.
\<close>

theorem link_wallet_invalid_address:
  assumes "walletAddress \<noteq> []" and "userId \<noteq> []" and "authToken \<noteq> []"
    and "jwt_verify e authToken (JWT_SECRET e) (lo_now oc) = Some decoded"
    and "c_userId decoded = userId"
    and "\<not> isAddress e walletAddress"
  shows "link_wallet e oc (Some walletAddress) (Some userId) (Some authToken) d
           = (ErrorResponse 500 ''Internal server error'', d)"
  using assms by (simp add: isAddress_def)

theorem link_wallet_invalid_address_witness:
  "link_wallet demo_env link_ok (Some ''not-an-address'') (Some ''user-1'')
     (Some ''jwt:user-1'') empty_db
   = (ErrorResponse 500 ''Internal server error'', empty_db)"
  using link_wallet_invalid_address
    [of "''not-an-address''" "''user-1''" "''jwt:user-1''" demo_env link_ok
        "\<lparr>c_userId = ''user-1'', c_walletAddress = addr_A, c_authMethod = ''wallet'',
          c_iat = 0, c_exp = 604800\<rparr>" empty_db]
  by (simp add: demo_env_def link_ok_def isAddress_def addr_A_def addr_A_lower_def
      addr_B_def addr_B_lower_def)

end
